theory Spec2Isabelle
  imports Complex_Main
begin

section \<open>ScrollResponder: the data model\<close>

text \<open>
  A shallow embedding of \<^verbatim>\<open>Libraries/Components/ScrollResponder.js\<close>.

  JavaScript numbers (timestamps, layout coordinates, offsets) are modelled as \<^typ>\<open>real\<close>:
  the arithmetic of the mixin is read as exact arithmetic, and \<^verbatim>\<open>NaN\<close> and infinities
  are not values of the model. A node handle (a React tag) is a natural number; a value
  that may be \<^verbatim>\<open>null\<close> or \<^verbatim>\<open>undefined\<close> is an \<open>option\<close>.
\<close>

type_synonym handle = nat

text \<open>\<^verbatim>\<open>export type State\<close>: the object kept in \<^verbatim>\<open>this.state\<close>.\<close>

record State =
  isTouching :: bool
  lastMomentumScrollBeginTime :: real
  lastMomentumScrollEndTime :: real
  observedScrollSinceBecomingResponder :: bool
  becameResponderWhileAnimating :: bool

text \<open>
  The events, reduced to the fields the mixin reads: \<^verbatim>\<open>e.target\<close> and
  \<^verbatim>\<open>e.nativeEvent.touches.length\<close> of a press event, \<^verbatim>\<open>e.nativeEvent.velocity\<close>
  (its \<^verbatim>\<open>x\<close> and \<^verbatim>\<open>y\<close>) of a scroll event, \<^verbatim>\<open>e.endCoordinates.screenY\<close> of a
  keyboard event.
\<close>

record PressEvent =
  target :: "handle option"
  touches :: nat

record ScrollEvent =
  velocity :: "(real \<times> real) option"

record KeyboardEvent =
  screenY :: real

text \<open>
  The prop \<^verbatim>\<open>keyboardShouldPersistTaps\<close>: absent, a (deprecated) boolean, or one of the
  three strings.
\<close>

datatype persistTaps =
  PersistAbsent | PersistBool bool | PersistAlways | PersistNever | PersistHandled

text \<open>The optional callback props of the host that the mixin forwards to.\<close>

datatype callback =
    OnTouchStart | OnTouchMove | OnTouchEnd | OnTouchCancel
  | OnResponderGrant | OnResponderRelease
  | OnScroll | OnScrollBeginDrag | OnScrollEndDrag
  | OnMomentumScrollBegin | OnMomentumScrollEnd
  | OnKeyboardWillShow | OnKeyboardWillHide | OnKeyboardDidShow | OnKeyboardDidHide
  | OnScrollResponderKeyboardDismissed

text \<open>
  \<^verbatim>\<open>this.props\<close>: the two configuration props and the set of callback props that the host
  supplied (a callback prop outside the set is \<^verbatim>\<open>undefined\<close>).
\<close>

record Props =
  disableScrollViewPanResponder :: "bool option"
  keyboardShouldPersistTaps :: persistTaps
  callbacks :: "callback set"

text \<open>
  What the collaborators answer during one invocation of a handler. Every handler reads
  each of them at most once, so one reading per invocation is exact:
  \<^verbatim>\<open>performanceNow()\<close>, \<^verbatim>\<open>TextInputState.currentlyFocusedField()\<close>,
  \<^verbatim>\<open>TextInputState.isTextInput\<close>, \<^verbatim>\<open>Dimensions.get('window').height\<close>,
  \<^verbatim>\<open>this.scrollResponderGetScrollableNode()\<close>, \<^verbatim>\<open>Platform.OS === 'ios'\<close>, and
  \<^verbatim>\<open>this.getNativeScrollRef\<close> (\<open>None\<close> when the method is missing, otherwise the
  reference it returns, which may be \<^verbatim>\<open>null\<close>).
\<close>

record Env =
  performanceNow :: real
  currentlyFocusedField :: "handle option"
  isTextInput :: "handle \<Rightarrow> bool"
  windowHeight :: real
  scrollableNode :: "handle option"
  platformIsIOS :: bool
  nativeScrollRef :: "handle option option"

text \<open>
  The instance: \<^verbatim>\<open>this.state\<close> and the instance fields the mixin assigns.
  \<^verbatim>\<open>preventNegativeScrollOffset\<close> and \<^verbatim>\<open>additionalOffset\<close> are \<^verbatim>\<open>undefined\<close>
  (\<open>None\<close>) until a method assigns them.
\<close>

record Component =
  state :: State
  keyboardWillOpenTo :: "KeyboardEvent option"
  additionalScrollOffset :: real
  preventNegativeScrollOffset :: "bool option"
  additionalOffset :: "real option"

text \<open>The calls the mixin makes on its collaborators, logged in the order they are made.\<close>

datatype payload =
  Press PressEvent | Scrolled ScrollEvent | Keyboard "KeyboardEvent option"

datatype command =
  ScrollTo real real bool | ScrollToEnd bool | FlashScrollIndicators

datatype nodeRef = NodeHandle handle | ElementRef handle

datatype effect =
    HostCallback callback payload
  | BlurTextInput "handle option"
  | BeginScroll
  | EndScroll
  | DispatchViewManagerCommand "handle option" command
  | ZoomToRect "handle option" "real \<times> real \<times> real \<times> real" bool
  | MeasureLayout nodeRef
  | ConsoleWarn
  | ConsoleError string

datatype error = NullThrows | InvariantViolation

section \<open>The mixin\<close>

definition IS_ANIMATING_TOUCH_START_THRESHOLD_MS :: real where
  "IS_ANIMATING_TOUCH_START_THRESHOLD_MS = 16"

definition scrollResponderMixinGetInitialState :: State where
  "scrollResponderMixinGetInitialState =
     \<lparr> isTouching = False,
       lastMomentumScrollBeginTime = 0,
       lastMomentumScrollEndTime = 0,
       observedScrollSinceBecomingResponder = False,
       becameResponderWhileAnimating = False \<rparr>"

text \<open>
  The instance once \<^verbatim>\<open>UNSAFE_componentWillMount\<close> has run: it sets
  \<^verbatim>\<open>keyboardWillOpenTo = null\<close> and \<^verbatim>\<open>additionalScrollOffset = 0\<close>.
\<close>

definition mountedComponent :: Component where
  "mountedComponent =
     \<lparr> state = scrollResponderMixinGetInitialState,
       keyboardWillOpenTo = None,
       additionalScrollOffset = 0,
       preventNegativeScrollOffset = None,
       additionalOffset = None \<rparr>"

text \<open>
  \<^verbatim>\<open>this.props.onX && this.props.onX(e)\<close>: the callback is called when the host supplied
  it. A callback of the host is taken to return and to leave \<^verbatim>\<open>this.state\<close> and the
  instance fields alone (the mixin's own methods are the only writers); what it does to
  the collaborators shows in the answers the handler reads after the call.
\<close>

definition forward :: "Props \<Rightarrow> callback \<Rightarrow> payload \<Rightarrow> effect list" where
  "forward p cb e = (if cb \<in> callbacks p then [HostCallback cb e] else [])"

definition scrollResponderIsAnimating :: "Env \<Rightarrow> Component \<Rightarrow> bool" where
  "scrollResponderIsAnimating env c =
     (let now = performanceNow env;
          timeSinceLastMomentumScrollEnd = now - lastMomentumScrollEndTime (state c)
      in timeSinceLastMomentumScrollEnd < IS_ANIMATING_TOUCH_START_THRESHOLD_MS
         \<or> lastMomentumScrollEndTime (state c) < lastMomentumScrollBeginTime (state c))"

definition scrollResponderHandleScrollShouldSetResponder :: "Props \<Rightarrow> Component \<Rightarrow> bool" where
  "scrollResponderHandleScrollShouldSetResponder p c =
     (if disableScrollViewPanResponder p = Some True then False
      else isTouching (state c))"

definition scrollResponderHandleStartShouldSetResponder ::
  "Props \<Rightarrow> Env \<Rightarrow> PressEvent \<Rightarrow> Component \<Rightarrow> bool" where
  "scrollResponderHandleStartShouldSetResponder p env e c =
     (if disableScrollViewPanResponder p = Some True then False
      else let currentlyFocusedTextInput = currentlyFocusedField env
           in if keyboardShouldPersistTaps p = PersistHandled
                 \<and> currentlyFocusedTextInput \<noteq> None
                 \<and> target e \<noteq> currentlyFocusedTextInput
              then True
              else False)"

text \<open>
  JavaScript truthiness of the two values the capture handler tests:
  \<^verbatim>\<open>!keyboardShouldPersistTaps\<close> holds of an absent prop and of \<^verbatim>\<open>false\<close> (a string of the
  three is never empty); \<^verbatim>\<open>e.target\<close> is truthy when it is a handle other than \<open>0\<close>.
  \<^verbatim>\<open>TextInputState.isTextInput\<close> of a missing target is read as \<^verbatim>\<open>false\<close>; the conjunct
  before it has already failed there.
\<close>

fun falsyPersistTaps :: "persistTaps \<Rightarrow> bool" where
  "falsyPersistTaps PersistAbsent = True"
| "falsyPersistTaps (PersistBool b) = (\<not> b)"
| "falsyPersistTaps PersistAlways = False"
| "falsyPersistTaps PersistNever = False"
| "falsyPersistTaps PersistHandled = False"

fun truthyTarget :: "handle option \<Rightarrow> bool" where
  "truthyTarget None = False"
| "truthyTarget (Some h) = (h \<noteq> 0)"

definition scrollResponderHandleStartShouldSetResponderCapture ::
  "Props \<Rightarrow> Env \<Rightarrow> PressEvent \<Rightarrow> Component \<Rightarrow> bool" where
  "scrollResponderHandleStartShouldSetResponderCapture p env e c =
     (if scrollResponderIsAnimating env c then True
      else if disableScrollViewPanResponder p = Some True then False
      else let currentlyFocusedTextInput = currentlyFocusedField env;
               keyboardNeverPersistTaps =
                 (falsyPersistTaps (keyboardShouldPersistTaps p)
                  \<or> keyboardShouldPersistTaps p = PersistNever)
           in if keyboardNeverPersistTaps
                 \<and> currentlyFocusedTextInput \<noteq> None
                 \<and> truthyTarget (target e)
                 \<and> (case target e of None \<Rightarrow> True | Some h \<Rightarrow> \<not> isTextInput env h)
              then True
              else False)"

definition scrollResponderHandleResponderReject :: "Component \<Rightarrow> Component \<times> effect list" where
  "scrollResponderHandleResponderReject c = (c, [])"

definition scrollResponderHandleTerminationRequest :: "Component \<Rightarrow> bool" where
  "scrollResponderHandleTerminationRequest c =
     (\<not> observedScrollSinceBecomingResponder (state c))"

definition scrollResponderHandleTouchEnd ::
  "Props \<Rightarrow> PressEvent \<Rightarrow> Component \<Rightarrow> Component \<times> effect list" where
  "scrollResponderHandleTouchEnd p e c =
     (c\<lparr>state := (state c)\<lparr>isTouching := (touches e \<noteq> 0)\<rparr>\<rparr>,
      forward p OnTouchEnd (Press e))"

definition scrollResponderHandleTouchCancel ::
  "Props \<Rightarrow> PressEvent \<Rightarrow> Component \<Rightarrow> Component \<times> effect list" where
  "scrollResponderHandleTouchCancel p e c =
     (c\<lparr>state := (state c)\<lparr>isTouching := False\<rparr>\<rparr>,
      forward p OnTouchCancel (Press e))"

text \<open>
  The condition of the release handler, evaluated after \<^verbatim>\<open>onResponderRelease\<close> was
  forwarded: \<open>env\<close> holds what \<^verbatim>\<open>currentlyFocusedField()\<close> answers at that point.
\<close>

definition scrollResponderHandleResponderRelease ::
  "Props \<Rightarrow> Env \<Rightarrow> PressEvent \<Rightarrow> Component \<Rightarrow> Component \<times> effect list" where
  "scrollResponderHandleResponderRelease p env e c =
     (let currentlyFocusedTextInput = currentlyFocusedField env
      in (c,
          forward p OnResponderRelease (Press e) @
          (if keyboardShouldPersistTaps p \<noteq> PersistBool True
              \<and> keyboardShouldPersistTaps p \<noteq> PersistAlways
              \<and> currentlyFocusedTextInput \<noteq> None
              \<and> target e \<noteq> currentlyFocusedTextInput
              \<and> \<not> observedScrollSinceBecomingResponder (state c)
              \<and> \<not> becameResponderWhileAnimating (state c)
           then forward p OnScrollResponderKeyboardDismissed (Press e) @
                [BlurTextInput currentlyFocusedTextInput]
           else [])))"

definition scrollResponderHandleScroll ::
  "Props \<Rightarrow> ScrollEvent \<Rightarrow> Component \<Rightarrow> Component \<times> effect list" where
  "scrollResponderHandleScroll p e c =
     (c\<lparr>state := (state c)\<lparr>observedScrollSinceBecomingResponder := True\<rparr>\<rparr>,
      forward p OnScroll (Scrolled e))"

text \<open>
  The grant handler reads the clock after \<^verbatim>\<open>onResponderGrant\<close> was forwarded: \<open>env\<close>
  holds what \<^verbatim>\<open>performanceNow()\<close> answers at that point.
\<close>

definition scrollResponderHandleResponderGrant ::
  "Props \<Rightarrow> Env \<Rightarrow> ScrollEvent \<Rightarrow> Component \<Rightarrow> Component \<times> effect list" where
  "scrollResponderHandleResponderGrant p env e c =
     (let c1 = c\<lparr>state := (state c)\<lparr>observedScrollSinceBecomingResponder := False\<rparr>\<rparr>;
          fx = forward p OnResponderGrant (Scrolled e);
          c2 = c1\<lparr>state := (state c1)
                  \<lparr>becameResponderWhileAnimating := scrollResponderIsAnimating env c1\<rparr>\<rparr>
      in (c2, fx))"

definition scrollResponderHandleScrollBeginDrag ::
  "Props \<Rightarrow> ScrollEvent \<Rightarrow> Component \<Rightarrow> Component \<times> effect list" where
  "scrollResponderHandleScrollBeginDrag p e c =
     (c, BeginScroll # forward p OnScrollBeginDrag (Scrolled e))"

definition scrollResponderHandleScrollEndDrag ::
  "Props \<Rightarrow> Env \<Rightarrow> ScrollEvent \<Rightarrow> Component \<Rightarrow> Component \<times> effect list" where
  "scrollResponderHandleScrollEndDrag p env e c =
     (c,
      (if \<not> scrollResponderIsAnimating env c
          \<and> (case velocity e of None \<Rightarrow> True | Some (vx, vy) \<Rightarrow> vx = 0 \<and> vy = 0)
       then [EndScroll] else []) @
      forward p OnScrollEndDrag (Scrolled e))"

definition scrollResponderHandleMomentumScrollBegin ::
  "Props \<Rightarrow> Env \<Rightarrow> ScrollEvent \<Rightarrow> Component \<Rightarrow> Component \<times> effect list" where
  "scrollResponderHandleMomentumScrollBegin p env e c =
     (c\<lparr>state := (state c)\<lparr>lastMomentumScrollBeginTime := performanceNow env\<rparr>\<rparr>,
      forward p OnMomentumScrollBegin (Scrolled e))"

definition scrollResponderHandleMomentumScrollEnd ::
  "Props \<Rightarrow> Env \<Rightarrow> ScrollEvent \<Rightarrow> Component \<Rightarrow> Component \<times> effect list" where
  "scrollResponderHandleMomentumScrollEnd p env e c =
     (c\<lparr>state := (state c)\<lparr>lastMomentumScrollEndTime := performanceNow env\<rparr>\<rparr>,
      EndScroll # forward p OnMomentumScrollEnd (Scrolled e))"

definition scrollResponderHandleTouchStart ::
  "Props \<Rightarrow> PressEvent \<Rightarrow> Component \<Rightarrow> Component \<times> effect list" where
  "scrollResponderHandleTouchStart p e c =
     (c\<lparr>state := (state c)\<lparr>isTouching := True\<rparr>\<rparr>,
      forward p OnTouchStart (Press e))"

definition scrollResponderHandleTouchMove ::
  "Props \<Rightarrow> PressEvent \<Rightarrow> Component \<Rightarrow> Component \<times> effect list" where
  "scrollResponderHandleTouchMove p e c = (c, forward p OnTouchMove (Press e))"

section \<open>Outbound commands\<close>

text \<open>
  \<^verbatim>\<open>v || 0\<close> of an optional number, \<^verbatim>\<open>animated !== false\<close> and \<^verbatim>\<open>!!flag\<close> of an optional
  boolean.
\<close>

fun orZero :: "real option \<Rightarrow> real" where
  "orZero None = 0"
| "orZero (Some v) = v"

fun notFalse :: "bool option \<Rightarrow> bool" where
  "notFalse None = True"
| "notFalse (Some b) = b"

fun toBoolean :: "bool option \<Rightarrow> bool" where
  "toBoolean None = False"
| "toBoolean (Some b) = b"

text \<open>
  The argument of \<^verbatim>\<open>scrollResponderScrollTo\<close>: the deprecated positional form
  \<^verbatim>\<open>(x, y, animated)\<close> with a number first, an options object, or nothing.
\<close>

datatype scrollToArg =
    Positional real "real option" "bool option"
  | Options "real option" "real option" "bool option"
  | NoOptions

definition scrollResponderScrollTo ::
  "Env \<Rightarrow> scrollToArg \<Rightarrow> (error + unit) \<times> effect list" where
  "scrollResponderScrollTo env arg =
     (let (warn, x, y, animated) =
            (case arg of
               Positional x0 y0 a0 \<Rightarrow> ([ConsoleWarn], Some x0, y0, a0)
             | Options x0 y0 a0 \<Rightarrow> ([], x0, y0, a0)
             | NoOptions \<Rightarrow> ([], None, None, None))
      in case scrollableNode env of
           None \<Rightarrow> (Inl NullThrows, warn)
         | Some node \<Rightarrow>
             (Inr (),
              warn @ [DispatchViewManagerCommand (Some node)
                        (ScrollTo (orZero x) (orZero y) (notFalse animated))]))"

text \<open>The argument is the options object, if any, with its \<^verbatim>\<open>animated\<close> field, if any.\<close>

definition scrollResponderScrollToEnd :: "Env \<Rightarrow> bool option option \<Rightarrow> effect list" where
  "scrollResponderScrollToEnd env options =
     (let animated = notFalse (case options of None \<Rightarrow> None | Some a \<Rightarrow> a)
      in [DispatchViewManagerCommand (scrollableNode env) (ScrollToEnd animated)])"

text \<open>
  The rectangle of \<^verbatim>\<open>scrollResponderZoomTo\<close>; \<open>rectAnimated\<close> is \<open>None\<close> when the object
  has no \<^verbatim>\<open>animated\<close> key.
\<close>

record Rect =
  rectX :: real
  rectY :: real
  rectWidth :: real
  rectHeight :: real
  rectAnimated :: "bool option option"

definition scrollResponderZoomTo ::
  "Env \<Rightarrow> Rect \<Rightarrow> bool option \<Rightarrow> (error + unit) \<times> effect list" where
  "scrollResponderZoomTo env rect animated0 =
     (if \<not> platformIsIOS env then (Inl InvariantViolation, [])
      else
        let (animated, warn) =
              (case rectAnimated rect of
                 Some a \<Rightarrow> (a, [])
               | None \<Rightarrow> (animated0, if animated0 \<noteq> None then [ConsoleWarn] else []))
        in case nativeScrollRef env of
             None \<Rightarrow> (Inl InvariantViolation, warn)
           | Some ref \<Rightarrow>
               (Inr (),
                warn @ [ZoomToRect ref (rectX rect, rectY rect, rectWidth rect, rectHeight rect)
                          (notFalse animated)]))"

definition scrollResponderFlashScrollIndicators :: "Env \<Rightarrow> effect list" where
  "scrollResponderFlashScrollIndicators env =
     [DispatchViewManagerCommand (scrollableNode env) FlashScrollIndicators]"

section \<open>Scrolling a target into view above the keyboard\<close>

definition scrollResponderScrollNativeHandleToKeyboard ::
  "nodeRef \<Rightarrow> real option \<Rightarrow> bool option \<Rightarrow> Component \<Rightarrow> Component \<times> effect list" where
  "scrollResponderScrollNativeHandleToKeyboard nodeHandle additionalOffset0
       preventNegativeScrollOffset0 c =
     (c\<lparr>additionalScrollOffset := orZero additionalOffset0,
        preventNegativeScrollOffset := Some (toBoolean preventNegativeScrollOffset0)\<rparr>,
      [MeasureLayout nodeHandle])"

text \<open>
  The success callback of the measurement (\<open>top'\<close> is the source's \<^verbatim>\<open>top\<close>). When \<^verbatim>\<open>scrollResponderScrollTo\<close> throws, the
  two assignments after it are not reached.
\<close>

definition scrollResponderInputMeasureAndScrollToKeyboard ::
  "Env \<Rightarrow> real \<Rightarrow> real \<Rightarrow> real \<Rightarrow> real \<Rightarrow> Component \<Rightarrow>
     (error + unit) \<times> Component \<times> effect list" where
  "scrollResponderInputMeasureAndScrollToKeyboard env left top' width height c =
     (let keyboardScreenY =
            (case keyboardWillOpenTo c of
               None \<Rightarrow> windowHeight env
             | Some k \<Rightarrow> screenY k);
          scrollOffsetY0 = top' - keyboardScreenY + height + additionalScrollOffset c;
          scrollOffsetY =
            (if preventNegativeScrollOffset c = Some True then max 0 scrollOffsetY0
             else scrollOffsetY0)
      in case scrollResponderScrollTo env (Options (Some 0) (Some scrollOffsetY) (Some True)) of
           (Inl err, fx) \<Rightarrow> (Inl err, c, fx)
         | (Inr u, fx) \<Rightarrow>
             (Inr (),
              c\<lparr>additionalOffset := Some 0, preventNegativeScrollOffset := Some False\<rparr>,
              fx))"

definition scrollResponderTextInputFocusError :: "string \<Rightarrow> effect list" where
  "scrollResponderTextInputFocusError msg = [ConsoleError msg]"

section \<open>Keyboard notifications\<close>

definition scrollResponderKeyboardWillShow ::
  "Props \<Rightarrow> KeyboardEvent \<Rightarrow> Component \<Rightarrow> Component \<times> effect list" where
  "scrollResponderKeyboardWillShow p e c =
     (c\<lparr>keyboardWillOpenTo := Some e\<rparr>, forward p OnKeyboardWillShow (Keyboard (Some e)))"

definition scrollResponderKeyboardWillHide ::
  "Props \<Rightarrow> KeyboardEvent option \<Rightarrow> Component \<Rightarrow> Component \<times> effect list" where
  "scrollResponderKeyboardWillHide p e c =
     (c\<lparr>keyboardWillOpenTo := None\<rparr>, forward p OnKeyboardWillHide (Keyboard e))"

definition scrollResponderKeyboardDidShow ::
  "Props \<Rightarrow> KeyboardEvent option \<Rightarrow> Component \<Rightarrow> Component \<times> effect list" where
  "scrollResponderKeyboardDidShow p e c =
     ((case e of None \<Rightarrow> c | Some k \<Rightarrow> c\<lparr>keyboardWillOpenTo := Some k\<rparr>),
      forward p OnKeyboardDidShow (Keyboard e))"

definition scrollResponderKeyboardDidHide ::
  "Props \<Rightarrow> KeyboardEvent option \<Rightarrow> Component \<Rightarrow> Component \<times> effect list" where
  "scrollResponderKeyboardDidHide p e c =
     (c\<lparr>keyboardWillOpenTo := None\<rparr>, forward p OnKeyboardDidHide (Keyboard e))"

section \<open>Sequences of invocations\<close>

text \<open>
  One invocation of a method of the mixin by the host. A query leaves the instance as it
  is; an exception leaves the instance as it was when it was thrown.
\<close>

datatype call =
    ScrollShouldSetResponder
  | StartShouldSetResponder PressEvent
  | StartShouldSetResponderCapture PressEvent
  | ResponderReject
  | TerminationRequest
  | TouchEnd PressEvent
  | TouchCancel PressEvent
  | ResponderRelease PressEvent
  | Scroll ScrollEvent
  | ResponderGrant ScrollEvent
  | ScrollBeginDrag ScrollEvent
  | ScrollEndDrag ScrollEvent
  | MomentumScrollBegin ScrollEvent
  | MomentumScrollEnd ScrollEvent
  | TouchStart PressEvent
  | TouchMove PressEvent
  | IsAnimating
  | CallScrollTo scrollToArg
  | CallScrollToEnd "bool option option"
  | CallZoomTo Rect "bool option"
  | CallFlashScrollIndicators
  | ScrollNativeHandleToKeyboard nodeRef "real option" "bool option"
  | InputMeasureAndScrollToKeyboard real real real real
  | TextInputFocusError string
  | KeyboardWillShow KeyboardEvent
  | KeyboardWillHide "KeyboardEvent option"
  | KeyboardDidShow "KeyboardEvent option"
  | KeyboardDidHide "KeyboardEvent option"

fun step :: "Props \<Rightarrow> Env \<Rightarrow> call \<Rightarrow> Component \<Rightarrow> Component \<times> effect list" where
  "step p env ScrollShouldSetResponder c = (c, [])"
| "step p env (StartShouldSetResponder e) c = (c, [])"
| "step p env (StartShouldSetResponderCapture e) c = (c, [])"
| "step p env ResponderReject c = scrollResponderHandleResponderReject c"
| "step p env TerminationRequest c = (c, [])"
| "step p env (TouchEnd e) c = scrollResponderHandleTouchEnd p e c"
| "step p env (TouchCancel e) c = scrollResponderHandleTouchCancel p e c"
| "step p env (ResponderRelease e) c = scrollResponderHandleResponderRelease p env e c"
| "step p env (Scroll e) c = scrollResponderHandleScroll p e c"
| "step p env (ResponderGrant e) c = scrollResponderHandleResponderGrant p env e c"
| "step p env (ScrollBeginDrag e) c = scrollResponderHandleScrollBeginDrag p e c"
| "step p env (ScrollEndDrag e) c = scrollResponderHandleScrollEndDrag p env e c"
| "step p env (MomentumScrollBegin e) c = scrollResponderHandleMomentumScrollBegin p env e c"
| "step p env (MomentumScrollEnd e) c = scrollResponderHandleMomentumScrollEnd p env e c"
| "step p env (TouchStart e) c = scrollResponderHandleTouchStart p e c"
| "step p env (TouchMove e) c = scrollResponderHandleTouchMove p e c"
| "step p env IsAnimating c = (c, [])"
| "step p env (CallScrollTo arg) c = (c, snd (scrollResponderScrollTo env arg))"
| "step p env (CallScrollToEnd options) c = (c, scrollResponderScrollToEnd env options)"
| "step p env (CallZoomTo rect animated) c = (c, snd (scrollResponderZoomTo env rect animated))"
| "step p env CallFlashScrollIndicators c = (c, scrollResponderFlashScrollIndicators env)"
| "step p env (ScrollNativeHandleToKeyboard h off prevent) c =
     scrollResponderScrollNativeHandleToKeyboard h off prevent c"
| "step p env (InputMeasureAndScrollToKeyboard left top' width height) c =
     snd (scrollResponderInputMeasureAndScrollToKeyboard env left top' width height c)"
| "step p env (TextInputFocusError msg) c = (c, scrollResponderTextInputFocusError msg)"
| "step p env (KeyboardWillShow e) c = scrollResponderKeyboardWillShow p e c"
| "step p env (KeyboardWillHide e) c = scrollResponderKeyboardWillHide p e c"
| "step p env (KeyboardDidShow e) c = scrollResponderKeyboardDidShow p e c"
| "step p env (KeyboardDidHide e) c = scrollResponderKeyboardDidHide p e c"

text \<open>
  A run of invocations, each with the props and the collaborators' answers of its moment.
\<close>

fun run :: "(Props \<times> Env \<times> call) list \<Rightarrow> Component \<Rightarrow> Component" where
  "run [] c = c"
| "run ((p, env, k) # ks) c = run ks (fst (step p env k c))"

section \<open>Vocabulary of the properties\<close>

text \<open>
  Which invocations are responder grants and which are scroll events, and the calls of a
  run in order.
\<close>

fun isGrant :: "call \<Rightarrow> bool" where
  "isGrant (ResponderGrant e) = True"
| "isGrant k = False"

fun isScroll :: "call \<Rightarrow> bool" where
  "isScroll (Scroll e) = True"
| "isScroll k = False"

definition callsOf :: "(Props \<times> Env \<times> call) list \<Rightarrow> call list" where
  "callsOf ks = map (\<lambda>(p, env, k). k) ks"

text \<open>
  Concrete values for the scenarios: a host that supplies every callback; collaborators
  at a given time and focus, where handle 5 is the only text input; a press on a view; a
  scroll event without velocity.
\<close>

definition exampleProps :: "bool option \<Rightarrow> persistTaps \<Rightarrow> Props" where
  "exampleProps disabled policy =
     \<lparr> disableScrollViewPanResponder = disabled,
       keyboardShouldPersistTaps = policy,
       callbacks = UNIV \<rparr>"

definition exampleEnv :: "real \<Rightarrow> handle option \<Rightarrow> Env" where
  "exampleEnv now focused =
     \<lparr> performanceNow = now,
       currentlyFocusedField = focused,
       isTextInput = (\<lambda>h. h = 5),
       windowHeight = 800,
       scrollableNode = Some 1,
       platformIsIOS = True,
       nativeScrollRef = Some (Some 1) \<rparr>"

definition pressOn :: "handle \<Rightarrow> PressEvent" where
  "pressOn h = \<lparr> target = Some h, touches = 1 \<rparr>"

definition plainScroll :: ScrollEvent where
  "plainScroll = \<lparr> velocity = None \<rparr>"

section \<open>The animating predicate\<close>

text \<open>
  Claim C1. In every state, \<^verbatim>\<open>scrollResponderIsAnimating()\<close> returns true if and only if
  the current time minus \<^verbatim>\<open>lastMomentumScrollEndTime\<close> is strictly below 16 ms or
  \<^verbatim>\<open>lastMomentumScrollEndTime\<close> is strictly less than \<^verbatim>\<open>lastMomentumScrollBeginTime\<close>;
  otherwise it returns false.
\<close>

theorem scrollResponderIsAnimating_iff:
  "scrollResponderIsAnimating env c =
     (performanceNow env - lastMomentumScrollEndTime (state c) < 16
      \<or> lastMomentumScrollEndTime (state c) < lastMomentumScrollBeginTime (state c))"
  by (simp add: scrollResponderIsAnimating_def IS_ANIMATING_TOUCH_START_THRESHOLD_MS_def)

text \<open>
  At 10 ms with both timestamps at 0 the predicate holds, at 16 ms it does not, and at
  5000 ms it holds while a momentum begun at 4000 ms has not ended.
\<close>

theorem scrollResponderIsAnimating_iff_witness:
  "scrollResponderIsAnimating (exampleEnv 10 None) mountedComponent
   \<and> \<not> scrollResponderIsAnimating (exampleEnv 16 None) mountedComponent
   \<and> scrollResponderIsAnimating (exampleEnv 5000 None)
       (fst (scrollResponderHandleMomentumScrollBegin (exampleProps None PersistNever)
               (exampleEnv 4000 None) plainScroll mountedComponent))"
  using scrollResponderIsAnimating_iff [of "exampleEnv 10 None" mountedComponent]
    scrollResponderIsAnimating_iff [of "exampleEnv 16 None" mountedComponent]
    scrollResponderIsAnimating_iff [of "exampleEnv 5000 None"
      "fst (scrollResponderHandleMomentumScrollBegin (exampleProps None PersistNever)
              (exampleEnv 4000 None) plainScroll mountedComponent)"]
  by (simp add: exampleEnv_def mountedComponent_def scrollResponderMixinGetInitialState_def
        scrollResponderHandleMomentumScrollBegin_def)

text \<open>
  After a momentum-end recorded at the time of \<open>env0\<close>, the predicate holds at every
  instant less than 16 ms later; once 16 ms have passed it holds only if a momentum-begin
  is recorded later than that end.
\<close>

lemma isAnimating_after_momentum_end:
  "scrollResponderIsAnimating env (fst (scrollResponderHandleMomentumScrollEnd p env0 e c)) =
     (performanceNow env - performanceNow env0 < 16
      \<or> performanceNow env0 < lastMomentumScrollBeginTime (state c))"
  by (simp add: scrollResponderIsAnimating_def IS_ANIMATING_TOUCH_START_THRESHOLD_MS_def
        scrollResponderHandleMomentumScrollEnd_def)

lemma isAnimating_false_once_elapsed:
  assumes "16 \<le> performanceNow env - performanceNow env0"
    and "lastMomentumScrollBeginTime (state c) \<le> performanceNow env0"
  shows "\<not> scrollResponderIsAnimating env
             (fst (scrollResponderHandleMomentumScrollEnd p env0 e c))"
  using assms by (simp add: isAnimating_after_momentum_end)

section \<open>The should-set-responder queries\<close>

lemma capture_eq:
  "scrollResponderHandleStartShouldSetResponderCapture p env e c =
     (scrollResponderIsAnimating env c
      \<or> (disableScrollViewPanResponder p \<noteq> Some True
         \<and> (falsyPersistTaps (keyboardShouldPersistTaps p)
            \<or> keyboardShouldPersistTaps p = PersistNever)
         \<and> currentlyFocusedField env \<noteq> None
         \<and> (\<exists>h. target e = Some h \<and> h \<noteq> 0 \<and> \<not> isTextInput env h)))"
  by (cases "target e") (auto simp: scrollResponderHandleStartShouldSetResponderCapture_def)

text \<open>
  Claim C3, as the code has it. The capture-phase handler tests the animating predicate
  before the pan-responder-disabled flag. With \<^verbatim>\<open>disableScrollViewPanResponder\<close> true it
  returns false whenever the surface is not animating, and true while it is animating:
  its result is then the animating predicate.
\<close>

theorem capture_when_pan_responder_disabled:
  "disableScrollViewPanResponder p = Some True \<Longrightarrow>
   scrollResponderHandleStartShouldSetResponderCapture p env e c
     = scrollResponderIsAnimating env c"
  by (simp add: capture_eq)

text \<open>
  With the flag set, the keyboard up and a press on a plain view at 5000 ms, no momentum
  ever recorded: false.
\<close>

theorem capture_when_pan_responder_disabled_witness:
  "disableScrollViewPanResponder (exampleProps (Some True) PersistNever) = Some True
   \<and> \<not> scrollResponderHandleStartShouldSetResponderCapture
         (exampleProps (Some True) PersistNever) (exampleEnv 5000 (Some 5)) (pressOn 9)
         mountedComponent"
proof -
  have flag: "disableScrollViewPanResponder (exampleProps (Some True) PersistNever) = Some True"
    by (simp add: exampleProps_def)
  have still: "\<not> scrollResponderIsAnimating (exampleEnv 5000 (Some 5)) mountedComponent"
    by (simp add: scrollResponderIsAnimating_def IS_ANIMATING_TOUCH_START_THRESHOLD_MS_def
          exampleEnv_def mountedComponent_def scrollResponderMixinGetInitialState_def)
  show ?thesis
    using capture_when_pan_responder_disabled [OF flag] flag still by simp
qed

text \<open>
  The claim as stated fails: with the flag set, a press 10 ms after a momentum-end
  recorded at 1000 ms is captured.
\<close>

theorem capture_disabled_while_animating:
  "disableScrollViewPanResponder (exampleProps (Some True) PersistNever) = Some True
   \<and> scrollResponderHandleStartShouldSetResponderCapture
       (exampleProps (Some True) PersistNever) (exampleEnv 1010 None) (pressOn 9)
       (fst (scrollResponderHandleMomentumScrollEnd (exampleProps (Some True) PersistNever)
               (exampleEnv 1000 None) plainScroll mountedComponent))"
  by (simp add: scrollResponderHandleStartShouldSetResponderCapture_def
        scrollResponderIsAnimating_def IS_ANIMATING_TOUCH_START_THRESHOLD_MS_def
        scrollResponderHandleMomentumScrollEnd_def exampleProps_def exampleEnv_def
        mountedComponent_def scrollResponderMixinGetInitialState_def)

text \<open>
  Claim C4, as the code has it. The capture-phase handler returns true when
  \<^verbatim>\<open>isAnimating()\<close> is true; it also returns true when the pan responder is not disabled,
  the tap-dismiss policy is the never-persist variant (absent, falsy or \<^verbatim>\<open>'never'\<close>), a
  text input is focused, and the event target is present (a truthy, non-zero handle) and
  is not a text input. In particular a press less than 16 ms after a recorded
  momentum-end is captured, whatever the props.
\<close>

theorem capture_true_cases:
  "(scrollResponderIsAnimating env c \<longrightarrow>
      scrollResponderHandleStartShouldSetResponderCapture p env e c)
   \<and> (disableScrollViewPanResponder p \<noteq> Some True
       \<and> (falsyPersistTaps (keyboardShouldPersistTaps p)
          \<or> keyboardShouldPersistTaps p = PersistNever)
       \<and> currentlyFocusedField env \<noteq> None
       \<and> target e = Some h \<and> h \<noteq> 0 \<and> \<not> isTextInput env h \<longrightarrow>
      scrollResponderHandleStartShouldSetResponderCapture p env e c)
   \<and> (performanceNow env - performanceNow env0 < 16 \<longrightarrow>
      scrollResponderHandleStartShouldSetResponderCapture p env e
        (fst (scrollResponderHandleMomentumScrollEnd p0 env0 e0 c0)))"
  by (simp add: capture_eq isAnimating_after_momentum_end)

text \<open>
  Momentum-end at 0 ms, press at 10 ms: captured. Press at 5000 ms on the plain view 9
  with the input 5 focused and the policy \<^verbatim>\<open>'never'\<close>, pan responder enabled: captured.
\<close>

theorem capture_true_cases_witness:
  "scrollResponderHandleStartShouldSetResponderCapture
       (exampleProps None PersistAlways) (exampleEnv 10 None) (pressOn 5)
       (fst (scrollResponderHandleMomentumScrollEnd (exampleProps None PersistAlways)
               (exampleEnv 0 None) plainScroll mountedComponent))
   \<and> scrollResponderHandleStartShouldSetResponderCapture
       (exampleProps None PersistNever) (exampleEnv 5000 (Some 5)) (pressOn 9)
       mountedComponent"
proof -
  have soon: "performanceNow (exampleEnv 10 None) - performanceNow (exampleEnv 0 None) < 16"
    by (simp add: exampleEnv_def)
  have tap: "disableScrollViewPanResponder (exampleProps None PersistNever) \<noteq> Some True
     \<and> (falsyPersistTaps (keyboardShouldPersistTaps (exampleProps None PersistNever))
        \<or> keyboardShouldPersistTaps (exampleProps None PersistNever) = PersistNever)
     \<and> currentlyFocusedField (exampleEnv 5000 (Some 5)) \<noteq> None
     \<and> target (pressOn 9) = Some 9 \<and> (9::nat) \<noteq> 0
     \<and> \<not> isTextInput (exampleEnv 5000 (Some 5)) 9"
    by (simp add: exampleProps_def exampleEnv_def pressOn_def)
  show ?thesis
    using soon tap
      capture_true_cases [of "exampleEnv 10 None"
        "fst (scrollResponderHandleMomentumScrollEnd (exampleProps None PersistAlways)
                (exampleEnv 0 None) plainScroll mountedComponent)"
        "exampleProps None PersistAlways" "pressOn 5" 5 "exampleEnv 0 None"
        "exampleProps None PersistAlways" plainScroll mountedComponent]
      capture_true_cases [of "exampleEnv 5000 (Some 5)" mountedComponent
        "exampleProps None PersistNever" "pressOn 9" 9 "exampleEnv 5000 (Some 5)"
        "exampleProps None PersistNever" plainScroll mountedComponent]
    by blast
qed

text \<open>
  The claim as stated fails: with the pan responder disabled and the surface at rest, the
  press on the plain view 9 with the input 5 focused and the policy \<^verbatim>\<open>'never'\<close> is not
  captured.
\<close>

theorem capture_keyboard_tap_while_disabled:
  "keyboardShouldPersistTaps (exampleProps (Some True) PersistNever) = PersistNever
   \<and> currentlyFocusedField (exampleEnv 5000 (Some 5)) = Some 5
   \<and> target (pressOn 9) = Some 9
   \<and> \<not> isTextInput (exampleEnv 5000 (Some 5)) 9
   \<and> \<not> scrollResponderHandleStartShouldSetResponderCapture
         (exampleProps (Some True) PersistNever) (exampleEnv 5000 (Some 5)) (pressOn 9)
         mountedComponent"
  by (simp add: scrollResponderHandleStartShouldSetResponderCapture_def
        scrollResponderIsAnimating_def IS_ANIMATING_TOUCH_START_THRESHOLD_MS_def
        exampleProps_def exampleEnv_def pressOn_def
        mountedComponent_def scrollResponderMixinGetInitialState_def)

text \<open>
  Claim C9, as the code has it. Two handlers answer the should-set-responder query
  outside the capture phase. \<^verbatim>\<open>scrollResponderHandleScrollShouldSetResponder\<close> returns
  true only while \<^verbatim>\<open>isTouching\<close> is true and the pan responder is enabled
  (\<^verbatim>\<open>disableScrollViewPanResponder\<close> not \<^verbatim>\<open>true\<close>); whenever \<^verbatim>\<open>isTouching\<close> is false or
  the pan responder is disabled, it returns false.
  \<^verbatim>\<open>scrollResponderHandleStartShouldSetResponder\<close>, the bubble-phase handler of a touch
  start, returns false whenever the pan responder is disabled, and does not read
  \<^verbatim>\<open>isTouching\<close>: its result is the same whatever \<^verbatim>\<open>isTouching\<close> is.
\<close>

theorem shouldSetResponder_queries:
  "scrollResponderHandleScrollShouldSetResponder p c =
     (isTouching (state c) \<and> disableScrollViewPanResponder p \<noteq> Some True)
   \<and> (disableScrollViewPanResponder p = Some True \<longrightarrow>
        \<not> scrollResponderHandleStartShouldSetResponder p env e c)
   \<and> scrollResponderHandleStartShouldSetResponder p env e
         (c\<lparr>state := (state c)\<lparr>isTouching := b\<rparr>\<rparr>)
       = scrollResponderHandleStartShouldSetResponder p env e c"
  by (simp add: scrollResponderHandleScrollShouldSetResponder_def
        scrollResponderHandleStartShouldSetResponder_def)

text \<open>
  The scroll query. Before any touch: false. After a touch-start: true with the pan
  responder enabled, false with it disabled. After the touch-end that lifts the last
  finger: false. The start handler, with the pan responder disabled, the policy
  \<^verbatim>\<open>'handled'\<close>, the input 5 focused and a press on view 9 while touching: false.
\<close>

theorem shouldSetResponder_queries_witness:
  "\<not> scrollResponderHandleScrollShouldSetResponder (exampleProps None PersistNever)
        mountedComponent
   \<and> scrollResponderHandleScrollShouldSetResponder (exampleProps None PersistNever)
       (fst (scrollResponderHandleTouchStart (exampleProps None PersistNever) (pressOn 9)
               mountedComponent))
   \<and> \<not> scrollResponderHandleScrollShouldSetResponder (exampleProps (Some True) PersistNever)
         (fst (scrollResponderHandleTouchStart (exampleProps (Some True) PersistNever)
                 (pressOn 9) mountedComponent))
   \<and> \<not> scrollResponderHandleScrollShouldSetResponder (exampleProps None PersistNever)
         (fst (scrollResponderHandleTouchEnd (exampleProps None PersistNever)
                 \<lparr> target = Some 9, touches = 0 \<rparr>
                 (fst (scrollResponderHandleTouchStart (exampleProps None PersistNever)
                         (pressOn 9) mountedComponent))))
   \<and> disableScrollViewPanResponder (exampleProps (Some True) PersistHandled) = Some True
   \<and> \<not> scrollResponderHandleStartShouldSetResponder (exampleProps (Some True) PersistHandled)
         (exampleEnv 5000 (Some 5)) (pressOn 9)
         (fst (scrollResponderHandleTouchStart (exampleProps (Some True) PersistHandled)
                 (pressOn 9) mountedComponent))"
proof -
  have flag: "disableScrollViewPanResponder (exampleProps (Some True) PersistHandled) = Some True"
    by (simp add: exampleProps_def)
  have scrollQuery:
    "\<not> scrollResponderHandleScrollShouldSetResponder (exampleProps None PersistNever)
          mountedComponent
     \<and> scrollResponderHandleScrollShouldSetResponder (exampleProps None PersistNever)
         (fst (scrollResponderHandleTouchStart (exampleProps None PersistNever) (pressOn 9)
                 mountedComponent))
     \<and> \<not> scrollResponderHandleScrollShouldSetResponder
           (exampleProps (Some True) PersistNever)
           (fst (scrollResponderHandleTouchStart (exampleProps (Some True) PersistNever)
                   (pressOn 9) mountedComponent))
     \<and> \<not> scrollResponderHandleScrollShouldSetResponder (exampleProps None PersistNever)
           (fst (scrollResponderHandleTouchEnd (exampleProps None PersistNever)
                   \<lparr> target = Some 9, touches = 0 \<rparr>
                   (fst (scrollResponderHandleTouchStart (exampleProps None PersistNever)
                           (pressOn 9) mountedComponent))))"
    using shouldSetResponder_queries [of "exampleProps None PersistNever" mountedComponent]
      shouldSetResponder_queries [of "exampleProps None PersistNever"
        "fst (scrollResponderHandleTouchStart (exampleProps None PersistNever) (pressOn 9)
                mountedComponent)"]
      shouldSetResponder_queries [of "exampleProps (Some True) PersistNever"
        "fst (scrollResponderHandleTouchStart (exampleProps (Some True) PersistNever)
                (pressOn 9) mountedComponent)"]
      shouldSetResponder_queries [of "exampleProps None PersistNever"
        "fst (scrollResponderHandleTouchEnd (exampleProps None PersistNever)
                \<lparr> target = Some 9, touches = 0 \<rparr>
                (fst (scrollResponderHandleTouchStart (exampleProps None PersistNever)
                        (pressOn 9) mountedComponent)))"]
    by (simp add: exampleProps_def mountedComponent_def scrollResponderMixinGetInitialState_def
          scrollResponderHandleTouchStart_def scrollResponderHandleTouchEnd_def)
  have startQuery:
    "\<not> scrollResponderHandleStartShouldSetResponder (exampleProps (Some True) PersistHandled)
          (exampleEnv 5000 (Some 5)) (pressOn 9)
          (fst (scrollResponderHandleTouchStart (exampleProps (Some True) PersistHandled)
                  (pressOn 9) mountedComponent))"
    using flag
      shouldSetResponder_queries [of "exampleProps (Some True) PersistHandled"
        "fst (scrollResponderHandleTouchStart (exampleProps (Some True) PersistHandled)
                (pressOn 9) mountedComponent)"
        "exampleEnv 5000 (Some 5)" "pressOn 9" True]
    by blast
  show ?thesis using flag scrollQuery startQuery by blast
qed

text \<open>
  The claim as stated fails of the start handler: with the pan responder enabled, the
  policy \<^verbatim>\<open>'handled'\<close>, the input 5 focused and a press on view 9, it returns true on a
  freshly mounted instance, where \<^verbatim>\<open>isTouching\<close> is false.
\<close>

theorem startShouldSetResponder_true_while_not_touching:
  "\<not> isTouching (state mountedComponent)
   \<and> disableScrollViewPanResponder (exampleProps None PersistHandled) \<noteq> Some True
   \<and> scrollResponderHandleStartShouldSetResponder (exampleProps None PersistHandled)
       (exampleEnv 5000 (Some 5)) (pressOn 9) mountedComponent"
  by (simp add: scrollResponderHandleStartShouldSetResponder_def exampleProps_def
        exampleEnv_def pressOn_def mountedComponent_def scrollResponderMixinGetInitialState_def)

text \<open>
  Claim C10. The bubble-phase start-should-set handler,
  \<^verbatim>\<open>scrollResponderHandleStartShouldSetResponder\<close>, returns true exactly when the pan
  responder is enabled, the tap-dismiss policy is \<^verbatim>\<open>'handled'\<close>, a text input is focused
  and the event target differs from it; for every other combination, and whatever
  \<^verbatim>\<open>isTouching\<close> and the rest of the instance are, it returns false.
\<close>

theorem startShouldSetResponder_iff:
  "scrollResponderHandleStartShouldSetResponder p env e c =
     (disableScrollViewPanResponder p \<noteq> Some True
      \<and> keyboardShouldPersistTaps p = PersistHandled
      \<and> currentlyFocusedField env \<noteq> None
      \<and> target e \<noteq> currentlyFocusedField env)
   \<and> scrollResponderHandleStartShouldSetResponder p env e c
       = scrollResponderHandleStartShouldSetResponder p env e c'"
  by (simp add: scrollResponderHandleStartShouldSetResponder_def Let_def)

text \<open>
  Policy \<^verbatim>\<open>'handled'\<close>, input 5 focused: a press on view 9 is claimed before any touch
  was recorded (\<^verbatim>\<open>isTouching\<close> false); a press on the input 5 itself is not; with the
  policy \<^verbatim>\<open>'never'\<close> the press on view 9 is not claimed even while touching.
\<close>

theorem startShouldSetResponder_iff_witness:
  "scrollResponderHandleStartShouldSetResponder (exampleProps None PersistHandled)
       (exampleEnv 5000 (Some 5)) (pressOn 9) mountedComponent
   \<and> \<not> scrollResponderHandleStartShouldSetResponder (exampleProps None PersistHandled)
         (exampleEnv 5000 (Some 5)) (pressOn 5) mountedComponent
   \<and> \<not> scrollResponderHandleStartShouldSetResponder (exampleProps None PersistNever)
         (exampleEnv 5000 (Some 5)) (pressOn 9)
         (fst (scrollResponderHandleTouchStart (exampleProps None PersistNever) (pressOn 9)
                 mountedComponent))"
  using startShouldSetResponder_iff [of "exampleProps None PersistHandled"
      "exampleEnv 5000 (Some 5)" "pressOn 9" mountedComponent mountedComponent]
    startShouldSetResponder_iff [of "exampleProps None PersistHandled"
      "exampleEnv 5000 (Some 5)" "pressOn 5" mountedComponent mountedComponent]
    startShouldSetResponder_iff [of "exampleProps None PersistNever"
      "exampleEnv 5000 (Some 5)" "pressOn 9"
      "fst (scrollResponderHandleTouchStart (exampleProps None PersistNever) (pressOn 9)
              mountedComponent)" mountedComponent]
  by (simp add: exampleProps_def exampleEnv_def pressOn_def)

section \<open>Responder release and the keyboard\<close>

text \<open>
  Claim C2. On responder-release, the keyboard-dismissed notification fires and the
  focused input is blurred if and only if all five conjuncts hold: the tap-dismiss policy
  is neither boolean true nor \<^verbatim>\<open>'always'\<close>, a text input is focused, the target of the
  release event differs from that input, \<^verbatim>\<open>observedScrollSinceBecomingResponder\<close> is false
  and \<^verbatim>\<open>becameResponderWhileAnimating\<close> is false; if any conjunct fails, neither happens.

  The notification is the forwarding to the host's optional callback
  \<^verbatim>\<open>onScrollResponderKeyboardDismissed\<close>. The handler's calls are exactly: the forwarding
  of \<^verbatim>\<open>onResponderRelease\<close>, then, when the five conjuncts hold and only then, the
  forwarding of the notification followed by one blur of the focused input. So some input
  is blurred iff the conjuncts hold, it is the focused one and it is blurred once, and a
  host that supplied the callback is notified iff the conjuncts hold, once.
\<close>

theorem responderRelease_dismisses_keyboard_iff:
  "let fx = snd (scrollResponderHandleResponderRelease p env e c);
       focused = currentlyFocusedField env;
       dismiss = (keyboardShouldPersistTaps p \<noteq> PersistBool True
                  \<and> keyboardShouldPersistTaps p \<noteq> PersistAlways
                  \<and> focused \<noteq> None
                  \<and> target e \<noteq> focused
                  \<and> \<not> observedScrollSinceBecomingResponder (state c)
                  \<and> \<not> becameResponderWhileAnimating (state c))
   in fx = forward p OnResponderRelease (Press e) @
             (if dismiss
              then forward p OnScrollResponderKeyboardDismissed (Press e) @
                   [BlurTextInput focused]
              else [])
      \<and> (\<exists>h. BlurTextInput h \<in> set fx) = dismiss
      \<and> (\<forall>h. BlurTextInput h \<in> set fx \<longrightarrow> h = focused)
      \<and> count_list fx (BlurTextInput focused) = (if dismiss then 1 else 0)
      \<and> (OnScrollResponderKeyboardDismissed \<in> callbacks p \<longrightarrow>
            (\<exists>x. HostCallback OnScrollResponderKeyboardDismissed x \<in> set fx) = dismiss
            \<and> count_list fx (HostCallback OnScrollResponderKeyboardDismissed (Press e))
                = (if dismiss then 1 else 0))
      \<and> fst (scrollResponderHandleResponderRelease p env e c) = c"
  by (auto simp: scrollResponderHandleResponderRelease_def forward_def Let_def)

text \<open>
  Input 5 focused, release on view 9, policy \<^verbatim>\<open>'never'\<close>, no scroll observed, not acquired
  while animating: the host is notified once and input 5 is blurred once. With the policy
  \<^verbatim>\<open>'always'\<close>, with the release on the input 5 itself, or after a scroll event, neither
  happens.
\<close>

theorem responderRelease_dismisses_keyboard_iff_witness:
  "snd (scrollResponderHandleResponderRelease (exampleProps None PersistNever)
          (exampleEnv 5000 (Some 5)) (pressOn 9) mountedComponent)
     = [HostCallback OnResponderRelease (Press (pressOn 9)),
        HostCallback OnScrollResponderKeyboardDismissed (Press (pressOn 9)),
        BlurTextInput (Some 5)]
   \<and> snd (scrollResponderHandleResponderRelease (exampleProps None PersistAlways)
          (exampleEnv 5000 (Some 5)) (pressOn 9) mountedComponent)
     = [HostCallback OnResponderRelease (Press (pressOn 9))]
   \<and> snd (scrollResponderHandleResponderRelease (exampleProps None PersistNever)
          (exampleEnv 5000 (Some 5)) (pressOn 5) mountedComponent)
     = [HostCallback OnResponderRelease (Press (pressOn 5))]
   \<and> snd (scrollResponderHandleResponderRelease (exampleProps None PersistNever)
          (exampleEnv 5000 (Some 5)) (pressOn 9)
          (fst (scrollResponderHandleScroll (exampleProps None PersistNever) plainScroll
                  mountedComponent)))
     = [HostCallback OnResponderRelease (Press (pressOn 9))]"
  using responderRelease_dismisses_keyboard_iff [of "exampleProps None PersistNever"
      "exampleEnv 5000 (Some 5)" "pressOn 9" mountedComponent]
    responderRelease_dismisses_keyboard_iff [of "exampleProps None PersistAlways"
      "exampleEnv 5000 (Some 5)" "pressOn 9" mountedComponent]
    responderRelease_dismisses_keyboard_iff [of "exampleProps None PersistNever"
      "exampleEnv 5000 (Some 5)" "pressOn 5" mountedComponent]
    responderRelease_dismisses_keyboard_iff [of "exampleProps None PersistNever"
      "exampleEnv 5000 (Some 5)" "pressOn 9"
      "fst (scrollResponderHandleScroll (exampleProps None PersistNever) plainScroll
              mountedComponent)"]
  by (simp add: Let_def forward_def exampleProps_def exampleEnv_def pressOn_def
        mountedComponent_def scrollResponderMixinGetInitialState_def
        scrollResponderHandleScroll_def)

section \<open>Scrolling a target into view above the keyboard: the command and the reset\<close>

text \<open>
  The success callback issues exactly one command when the scrollable node is there, and
  none (\<^verbatim>\<open>nullthrows\<close> throws) when it is not.
\<close>

lemma scrollTo_options:
  "scrollResponderScrollTo env (Options (Some x) (Some y) (Some a)) =
     (case scrollableNode env of
        None \<Rightarrow> (Inl NullThrows, [])
      | Some node \<Rightarrow> (Inr (), [DispatchViewManagerCommand (Some node) (ScrollTo x y a)]))"
  by (simp add: scrollResponderScrollTo_def split: option.splits)

lemma measure_without_node:
  "scrollableNode env = None \<Longrightarrow>
   scrollResponderInputMeasureAndScrollToKeyboard env left top' width height c
     = (Inl NullThrows, c, [])"
  by (simp add: scrollResponderInputMeasureAndScrollToKeyboard_def scrollTo_options Let_def)

text \<open>
  Claim C6. On a successful measurement \<open>(left, top, width, height)\<close>, the scroll command
  issued has \<open>x = 0\<close>, \<open>animated = true\<close> and
  \<open>y = top - keyboardScreenY + height + additionalScrollOffset\<close>, where
  \<open>keyboardScreenY\<close> is \<^verbatim>\<open>endCoordinates.screenY\<close> of the stored keyboard frame when one
  is stored and the height of the window otherwise; when the prevent-negative-offset flag
  is set, \<open>y\<close> is \<open>max 0\<close> of that value.
\<close>

theorem measure_issues_scrollTo:
  "scrollableNode env = Some node \<Longrightarrow>
   snd (snd (scrollResponderInputMeasureAndScrollToKeyboard env left top' width height c)) =
     [DispatchViewManagerCommand (Some node)
        (ScrollTo 0
           (let keyboardScreenY =
                  (case keyboardWillOpenTo c of
                     Some k \<Rightarrow> screenY k
                   | None \<Rightarrow> windowHeight env);
                y = top' - keyboardScreenY + height + additionalScrollOffset c
            in if preventNegativeScrollOffset c = Some True then max 0 y else y)
           True)]"
  by (simp add: scrollResponderInputMeasureAndScrollToKeyboard_def scrollTo_options Let_def
        split: option.splits)

text \<open>
  Keyboard frame at \<open>screenY = 500\<close>, target at \<open>top = 440\<close> of height 20, no additional
  offset: the raw offset is \<open>-40\<close>. With the flag set the command scrolls to \<open>0\<close>, without
  it to \<open>-40\<close>; with no keyboard frame stored the window height 800 is used.
\<close>

theorem measure_issues_scrollTo_witness:
  "snd (snd (scrollResponderInputMeasureAndScrollToKeyboard (exampleEnv 5000 (Some 5))
               0 440 100 20
               (fst (scrollResponderScrollNativeHandleToKeyboard (NodeHandle 5) None (Some True)
                  (fst (scrollResponderKeyboardWillShow (exampleProps None PersistNever)
                          \<lparr> screenY = 500 \<rparr> mountedComponent))))))
     = [DispatchViewManagerCommand (Some 1) (ScrollTo 0 0 True)]
   \<and> snd (snd (scrollResponderInputMeasureAndScrollToKeyboard (exampleEnv 5000 (Some 5))
               0 440 100 20
               (fst (scrollResponderScrollNativeHandleToKeyboard (NodeHandle 5) None None
                  (fst (scrollResponderKeyboardWillShow (exampleProps None PersistNever)
                          \<lparr> screenY = 500 \<rparr> mountedComponent))))))
     = [DispatchViewManagerCommand (Some 1) (ScrollTo 0 (- 40) True)]
   \<and> snd (snd (scrollResponderInputMeasureAndScrollToKeyboard (exampleEnv 5000 (Some 5))
               0 440 100 20
               (fst (scrollResponderScrollNativeHandleToKeyboard (NodeHandle 5) (Some 30) None
                  mountedComponent))))
     = [DispatchViewManagerCommand (Some 1) (ScrollTo 0 (- 310) True)]"
proof -
  have node: "scrollableNode (exampleEnv 5000 (Some 5)) = Some 1"
    by (simp add: exampleEnv_def)
  show ?thesis
    using measure_issues_scrollTo [OF node, of 0 440 100 20
        "fst (scrollResponderScrollNativeHandleToKeyboard (NodeHandle 5) None (Some True)
           (fst (scrollResponderKeyboardWillShow (exampleProps None PersistNever)
                   \<lparr> screenY = 500 \<rparr> mountedComponent)))"]
      measure_issues_scrollTo [OF node, of 0 440 100 20
        "fst (scrollResponderScrollNativeHandleToKeyboard (NodeHandle 5) None None
           (fst (scrollResponderKeyboardWillShow (exampleProps None PersistNever)
                   \<lparr> screenY = 500 \<rparr> mountedComponent)))"]
      measure_issues_scrollTo [OF node, of 0 440 100 20
        "fst (scrollResponderScrollNativeHandleToKeyboard (NodeHandle 5) (Some 30) None
           mountedComponent)"]
    by (simp add: Let_def exampleEnv_def mountedComponent_def
          scrollResponderScrollNativeHandleToKeyboard_def scrollResponderKeyboardWillShow_def)
qed

text \<open>
  The success callback never changes \<^verbatim>\<open>additionalScrollOffset\<close>, the field its
  computation reads; when it returns it has reset the prevent-negative-offset flag.
\<close>

lemma measure_keeps_additionalScrollOffset:
  "additionalScrollOffset
     (fst (snd (scrollResponderInputMeasureAndScrollToKeyboard env left top' width height c)))
     = additionalScrollOffset c"
  by (simp add: scrollResponderInputMeasureAndScrollToKeyboard_def scrollTo_options Let_def
        split: option.splits)

lemma measure_resets_preventNegativeScrollOffset:
  "scrollableNode env = Some node \<Longrightarrow>
   preventNegativeScrollOffset
     (fst (snd (scrollResponderInputMeasureAndScrollToKeyboard env left top' width height c)))
     = Some False"
  by (simp add: scrollResponderInputMeasureAndScrollToKeyboard_def scrollTo_options Let_def)

text \<open>
  Claim C5 asks that after the success callback both one-shot parameters are back at
  their defaults. The callback assigns \<^verbatim>\<open>this.additionalOffset = 0\<close>, a field nothing
  reads, and leaves \<^verbatim>\<open>this.additionalScrollOffset\<close> as it was; only the flag is reset.
  The operation started with an additional offset of 50 and the flag set, measured at
  \<open>(0, 440, 100, 20)\<close>: the callback issues its command and returns, and afterwards
  \<^verbatim>\<open>additionalScrollOffset\<close> is still 50.
\<close>

theorem measure_leaves_additionalScrollOffset_50:
  "(case scrollResponderInputMeasureAndScrollToKeyboard (exampleEnv 5000 (Some 5))
           0 440 100 20
           (fst (scrollResponderScrollNativeHandleToKeyboard (NodeHandle 5) (Some 50)
                   (Some True) mountedComponent)) of
      (r, c, fx) \<Rightarrow>
        r = Inr ()
        \<and> fx = [DispatchViewManagerCommand (Some 1) (ScrollTo 0 0 True)]
        \<and> additionalScrollOffset c = 50
        \<and> additionalOffset c = Some 0
        \<and> preventNegativeScrollOffset c = Some False)"
  by (simp add: scrollResponderInputMeasureAndScrollToKeyboard_def scrollTo_options Let_def
        scrollResponderScrollNativeHandleToKeyboard_def exampleEnv_def mountedComponent_def)

section \<open>Scroll observed since the responder grant\<close>

lemmas handler_defs =
  scrollResponderHandleResponderReject_def scrollResponderHandleTouchEnd_def
  scrollResponderHandleTouchCancel_def scrollResponderHandleResponderRelease_def
  scrollResponderHandleScroll_def scrollResponderHandleResponderGrant_def
  scrollResponderHandleScrollBeginDrag_def scrollResponderHandleScrollEndDrag_def
  scrollResponderHandleMomentumScrollBegin_def scrollResponderHandleMomentumScrollEnd_def
  scrollResponderHandleTouchStart_def scrollResponderHandleTouchMove_def
  scrollResponderScrollNativeHandleToKeyboard_def
  scrollResponderInputMeasureAndScrollToKeyboard_def
  scrollResponderKeyboardWillShow_def scrollResponderKeyboardWillHide_def
  scrollResponderKeyboardDidShow_def scrollResponderKeyboardDidHide_def

lemma grant_clears_observed:
  "\<not> observedScrollSinceBecomingResponder (state (fst (step p env (ResponderGrant e) c)))"
  by (simp add: scrollResponderHandleResponderGrant_def Let_def)

lemma scroll_sets_observed:
  "observedScrollSinceBecomingResponder (state (fst (step p env (Scroll e) c)))"
  by (simp add: scrollResponderHandleScroll_def)

text \<open>Every method but the grant and the scroll handler leaves the flag as it is.\<close>

lemma other_keeps_observed:
  "\<not> isGrant k \<Longrightarrow> \<not> isScroll k \<Longrightarrow>
   observedScrollSinceBecomingResponder (state (fst (step p env k c)))
     = observedScrollSinceBecomingResponder (state c)"
  by (cases k)
     (auto simp: handler_defs Let_def split: prod.splits sum.splits option.splits)

lemma step_without_grant:
  assumes "\<not> isGrant k"
  shows "observedScrollSinceBecomingResponder (state (fst (step p env k c)))
           = (observedScrollSinceBecomingResponder (state c) \<or> isScroll k)"
proof (cases "isScroll k")
  case True
  then obtain e where "k = Scroll e" by (cases k) auto
  then show ?thesis using True by (simp add: scroll_sets_observed del: step.simps)
next
  case False
  with assms show ?thesis by (simp add: other_keeps_observed)
qed

lemma run_append: "run (xs @ ys) c = run ys (run xs c)"
  by (induction xs arbitrary: c) auto

lemma run_without_grant:
  "\<not> list_ex isGrant (callsOf ks) \<Longrightarrow>
   observedScrollSinceBecomingResponder (state (run ks c))
     = (observedScrollSinceBecomingResponder (state c) \<or> list_ex isScroll (callsOf ks))"
proof (induction ks arbitrary: c)
  case Nil
  then show ?case by (simp add: callsOf_def)
next
  case (Cons a ks)
  obtain p env k where a: "a = (p, env, k)" by (cases a) auto
  from Cons.prems a have ng: "\<not> isGrant k" and rest: "\<not> list_ex isGrant (callsOf ks)"
    by (auto simp: callsOf_def)
  have "observedScrollSinceBecomingResponder (state (run (a # ks) c))
          = observedScrollSinceBecomingResponder (state (run ks (fst (step p env k c))))"
    using a by simp
  also have "\<dots> = (observedScrollSinceBecomingResponder (state (fst (step p env k c)))
                    \<or> list_ex isScroll (callsOf ks))"
    using Cons.IH [OF rest] .
  also have "\<dots> = (observedScrollSinceBecomingResponder (state c)
                    \<or> list_ex isScroll (callsOf (a # ks)))"
    using step_without_grant [OF ng] a by (auto simp: callsOf_def)
  finally show ?case .
qed

text \<open>
  After a grant and any further invocations with no grant among them, the flag says
  whether one of them was a scroll event.
\<close>

lemma observed_since_grant:
  assumes "\<not> list_ex isGrant (callsOf ks)"
  shows "observedScrollSinceBecomingResponder
           (state (run (pre @ (p, env, ResponderGrant e) # ks) c))
         = list_ex isScroll (callsOf ks)"
proof -
  have "run (pre @ (p, env, ResponderGrant e) # ks) c
          = run ks (fst (step p env (ResponderGrant e) (run pre c)))"
    by (simp add: run_append)
  then show ?thesis
    using run_without_grant [OF assms] grant_clears_observed by simp
qed

text \<open>
  Claim C7. The termination-request handler returns the negation of
  \<^verbatim>\<open>observedScrollSinceBecomingResponder\<close>; so after any run of invocations, it returns
  true if and only if no scroll event was handled since the most recent responder grant:
  false after a grant followed by a scroll event, true after a grant with no scroll.
\<close>

theorem terminationRequest_iff_no_scroll_since_grant:
  "scrollResponderHandleTerminationRequest c
     = (\<not> observedScrollSinceBecomingResponder (state c))
   \<and> (\<not> list_ex isGrant (callsOf ks) \<longrightarrow>
        scrollResponderHandleTerminationRequest
          (run (pre @ (p, env, ResponderGrant e) # ks) c)
        = (\<not> list_ex isScroll (callsOf ks)))"
  by (simp add: scrollResponderHandleTerminationRequest_def observed_since_grant)

text \<open>
  Grant, then a scroll event (and a touch-move): the request is refused. Grant, then only
  a touch-move: the request is granted, also when a scroll event came before the grant.
\<close>

theorem terminationRequest_iff_no_scroll_since_grant_witness:
  "\<not> scrollResponderHandleTerminationRequest
        (run ([] @ (exampleProps None PersistNever, exampleEnv 5000 None,
                    ResponderGrant plainScroll) #
               [(exampleProps None PersistNever, exampleEnv 5010 None, Scroll plainScroll),
                (exampleProps None PersistNever, exampleEnv 5020 None, TouchMove (pressOn 9))])
           mountedComponent)
   \<and> scrollResponderHandleTerminationRequest
        (run ([(exampleProps None PersistNever, exampleEnv 4000 None, Scroll plainScroll)] @
               (exampleProps None PersistNever, exampleEnv 5000 None,
                ResponderGrant plainScroll) #
               [(exampleProps None PersistNever, exampleEnv 5020 None, TouchMove (pressOn 9))])
           mountedComponent)"
proof -
  have a: "\<not> list_ex isGrant (callsOf
      [(exampleProps None PersistNever, exampleEnv 5010 None, Scroll plainScroll),
       (exampleProps None PersistNever, exampleEnv 5020 None, TouchMove (pressOn 9))])"
    by (simp add: callsOf_def)
  have a': "list_ex isScroll (callsOf
      [(exampleProps None PersistNever, exampleEnv 5010 None, Scroll plainScroll),
       (exampleProps None PersistNever, exampleEnv 5020 None, TouchMove (pressOn 9))])"
    by (simp add: callsOf_def)
  have b: "\<not> list_ex isGrant (callsOf
      [(exampleProps None PersistNever, exampleEnv 5020 None, TouchMove (pressOn 9))])"
    by (simp add: callsOf_def)
  have b': "\<not> list_ex isScroll (callsOf
      [(exampleProps None PersistNever, exampleEnv 5020 None, TouchMove (pressOn 9))])"
    by (simp add: callsOf_def)
  show ?thesis
    using a a' b b'
      terminationRequest_iff_no_scroll_since_grant [of mountedComponent
        "[(exampleProps None PersistNever, exampleEnv 5010 None, Scroll plainScroll),
          (exampleProps None PersistNever, exampleEnv 5020 None, TouchMove (pressOn 9))]"
        "[]" "exampleProps None PersistNever" "exampleEnv 5000 None" plainScroll]
      terminationRequest_iff_no_scroll_since_grant [of mountedComponent
        "[(exampleProps None PersistNever, exampleEnv 5020 None, TouchMove (pressOn 9))]"
        "[(exampleProps None PersistNever, exampleEnv 4000 None, Scroll plainScroll)]"
        "exampleProps None PersistNever" "exampleEnv 5000 None" plainScroll]
    by blast
qed

text \<open>
  Claim C8. For every sequence of invocations: immediately after a responder grant
  \<^verbatim>\<open>observedScrollSinceBecomingResponder\<close> is false; a scroll event makes it true; every
  method other than the grant keeps it true, and every method other than the grant and
  the scroll handler leaves it as it is. Hence after a grant and any invocations with no
  further grant, it is true exactly when a scroll event was among them: false until the
  first scroll event, true from then on until the next grant.
\<close>

theorem observedScroll_between_grants:
  "\<not> observedScrollSinceBecomingResponder (state (fst (step p env (ResponderGrant e) c)))
   \<and> observedScrollSinceBecomingResponder (state (fst (step p env (Scroll e') c)))
   \<and> (\<not> isGrant k \<and> observedScrollSinceBecomingResponder (state c) \<longrightarrow>
        observedScrollSinceBecomingResponder (state (fst (step p env k c))))
   \<and> (\<not> isGrant k \<and> \<not> isScroll k \<longrightarrow>
        observedScrollSinceBecomingResponder (state (fst (step p env k c)))
          = observedScrollSinceBecomingResponder (state c))
   \<and> (\<not> list_ex isGrant (callsOf ks) \<longrightarrow>
        observedScrollSinceBecomingResponder
          (state (run (pre @ (p, env, ResponderGrant e) # ks) c))
        = list_ex isScroll (callsOf ks))"
  using grant_clears_observed [of p env e c] scroll_sets_observed [of p env e' c]
    step_without_grant [of k p env c] other_keeps_observed [of k p env c]
    observed_since_grant [of ks pre p env e c]
  by blast

text \<open>
  A run: scroll, grant, touch-start, touch-move, scroll, momentum-begin, release. The flag
  is false after the touch-move and true after the release.
\<close>

theorem observedScroll_between_grants_witness:
  "\<not> observedScrollSinceBecomingResponder (state
        (run ([(exampleProps None PersistNever, exampleEnv 4000 None, Scroll plainScroll)] @
              (exampleProps None PersistNever, exampleEnv 5000 None,
               ResponderGrant plainScroll) #
              [(exampleProps None PersistNever, exampleEnv 5001 None, TouchStart (pressOn 9)),
               (exampleProps None PersistNever, exampleEnv 5002 None, TouchMove (pressOn 9))])
           mountedComponent))
   \<and> observedScrollSinceBecomingResponder (state
        (run ([(exampleProps None PersistNever, exampleEnv 4000 None, Scroll plainScroll)] @
              (exampleProps None PersistNever, exampleEnv 5000 None,
               ResponderGrant plainScroll) #
              [(exampleProps None PersistNever, exampleEnv 5001 None, TouchStart (pressOn 9)),
               (exampleProps None PersistNever, exampleEnv 5002 None, TouchMove (pressOn 9)),
               (exampleProps None PersistNever, exampleEnv 5003 None, Scroll plainScroll),
               (exampleProps None PersistNever, exampleEnv 5004 None,
                MomentumScrollBegin plainScroll),
               (exampleProps None PersistNever, exampleEnv 5005 None,
                ResponderRelease (pressOn 9))])
           mountedComponent))"
proof -
  let ?P = "exampleProps None PersistNever"
  let ?pre = "[(?P, exampleEnv 4000 None, Scroll plainScroll)]"
  let ?ks1 = "[(?P, exampleEnv 5001 None, TouchStart (pressOn 9)),
               (?P, exampleEnv 5002 None, TouchMove (pressOn 9))]"
  let ?ks2 = "[(?P, exampleEnv 5001 None, TouchStart (pressOn 9)),
               (?P, exampleEnv 5002 None, TouchMove (pressOn 9)),
               (?P, exampleEnv 5003 None, Scroll plainScroll),
               (?P, exampleEnv 5004 None, MomentumScrollBegin plainScroll),
               (?P, exampleEnv 5005 None, ResponderRelease (pressOn 9))]"
  have g1: "\<not> list_ex isGrant (callsOf ?ks1)" and s1: "\<not> list_ex isScroll (callsOf ?ks1)"
    by (simp_all add: callsOf_def)
  have g2: "\<not> list_ex isGrant (callsOf ?ks2)" and s2: "list_ex isScroll (callsOf ?ks2)"
    by (simp_all add: callsOf_def)
  show ?thesis
    using g1 s1 g2 s2
      observedScroll_between_grants [of ?P "exampleEnv 5000 None" plainScroll
        mountedComponent plainScroll ScrollShouldSetResponder ?ks1 ?pre]
      observedScroll_between_grants [of ?P "exampleEnv 5000 None" plainScroll
        mountedComponent plainScroll ScrollShouldSetResponder ?ks2 ?pre]
    by blast
qed

end
